theory Spec2Isabelle
  imports Main
begin

section \<open>Wiresense: a shallow embedding of \<^verbatim>\<open>src/wiresense/wiresense.py\<close>\<close>

text \<open>
  The module keeps three pieces of process-wide state: the class attribute
  \<^verbatim>\<open>Wiresense.sensors\<close> (the registry), the class attribute \<^verbatim>\<open>Wiresense.configured\<close>
  and the module-level set \<^verbatim>\<open>active_connections\<close>. Around them sits the environment the
  code talks to: the file system, the listening sockets, the WebSocket channels, the
  logger, the clock and the reader callables supplied by the application. All of it is
  one record \<open>world\<close> that every operation takes and returns; an exception is the left
  summand of the result.

  Strings are lists of characters with code points below 256; floating-point readings
  are not represented. Characters that cannot be typed inside a string literal are
  named first.
\<close>

abbreviation LF :: char where "LF \<equiv> CHR 0x0A"
abbreviation CR :: char where "CR \<equiv> CHR 0x0D"
abbreviation DQUOTE :: char where "DQUOTE \<equiv> CHR 0x22"
abbreviation SQUOTE :: char where "SQUOTE \<equiv> CHR 0x27"
abbreviation BSLASH :: char where "BSLASH \<equiv> CHR 0x5C"

subsection \<open>Readings\<close>

text \<open>
  A reader is declared to return \<^verbatim>\<open>Dict[str, Any]\<close>. A dictionary keeps its insertion
  order, so it is an association list; the only thing the code asks of any other value
  is \<^verbatim>\<open>isinstance(data, dict)\<close>, so all of them are one constructor.
\<close>

datatype scalar = PyNone | PyBool bool | PyInt int | PyStr string

datatype reading = Dict "(string \<times> scalar) list" | NonDict

text \<open>\<^verbatim>\<open>not isinstance(data, dict) or not data\<close>, negated.\<close>

fun nonempty_dict :: "reading \<Rightarrow> bool" where
  "nonempty_dict (Dict kvs) = (kvs \<noteq> [])"
| "nonempty_dict NonDict = False"

definition keys :: "(string \<times> scalar) list \<Rightarrow> string list" where
  "keys kvs = map fst kvs"

definition values_of :: "(string \<times> scalar) list \<Rightarrow> scalar list" where
  "values_of kvs = map snd kvs"

subsection \<open>Text forms: \<^verbatim>\<open>str\<close>, \<^verbatim>\<open>csv.writer\<close>, \<^verbatim>\<open>json.dumps\<close>\<close>

fun str_nat :: "nat \<Rightarrow> string" where
  "str_nat n =
     (if n < 10 then [''0123456789'' ! n]
      else str_nat (n div 10) @ [''0123456789'' ! (n mod 10)])"

declare str_nat.simps [simp del]

definition str_int :: "int \<Rightarrow> string" where
  "str_int i = (if i < 0 then CHR ''-'' # str_nat (nat (- i)) else str_nat (nat i))"

text \<open>\<^verbatim>\<open>sep.join(parts)\<close>, \<^verbatim>\<open>s.split(c)\<close> and \<^verbatim>\<open>s.replace(c, new)\<close> for a one-character \<open>c\<close>.\<close>

fun join :: "string \<Rightarrow> string list \<Rightarrow> string" where
  "join sep [] = []"
| "join sep [x] = x"
| "join sep (x # y # ys) = x @ sep @ join sep (y # ys)"

fun split :: "char \<Rightarrow> string \<Rightarrow> string list" where
  "split sep [] = [Nil]"
| "split sep (c # cs) =
     (if c = sep then Nil # split sep cs
      else (case split sep cs of
              [] \<Rightarrow> [c # []]
            | p # ps \<Rightarrow> (c # p) # ps))"

definition replace :: "char \<Rightarrow> string \<Rightarrow> string \<Rightarrow> string" where
  "replace c new s = concat (map (\<lambda>x. if x = c then new else [x]) s)"

text \<open>
  The cell text \<^verbatim>\<open>csv.writer\<close> produces for a field: a string as it is, \<^verbatim>\<open>None\<close> as the
  empty string, anything else through \<^verbatim>\<open>str\<close>.
\<close>

fun csv_text :: "scalar \<Rightarrow> string" where
  "csv_text PyNone = []"
| "csv_text (PyBool b) = (if b then ''True'' else ''False'')"
| "csv_text (PyInt i) = str_int i"
| "csv_text (PyStr s) = s"

text \<open>
  \<^verbatim>\<open>writer.writerow\<close> in the default dialect (delimiter comma, quote character \<open>"\<close>,
  minimal quoting with doubled quotes, line terminator CR LF); the file is opened with
  \<^verbatim>\<open>newline=""\<close>, so the terminator is written untranslated.
\<close>

definition csv_special :: "char \<Rightarrow> bool" where
  "csv_special c = (c = CHR '','' \<or> c = DQUOTE \<or> c = CR \<or> c = LF)"

definition csv_field :: "string \<Rightarrow> string" where
  "csv_field s =
     (if list_ex csv_special s
      then DQUOTE # concat (map (\<lambda>c. if c = DQUOTE then [DQUOTE, DQUOTE] else [c]) s) @ [DQUOTE]
      else s)"

definition writerow :: "scalar list \<Rightarrow> string" where
  "writerow row = join '','' (map (csv_field \<circ> csv_text) row) @ [CR, LF]"

text \<open>
  \<^verbatim>\<open>json.dumps\<close> with its defaults (\<^verbatim>\<open>ensure_ascii\<close>, separators \<^verbatim>\<open>", "\<close> and \<^verbatim>\<open>": "\<close>) on
  the payload \<^verbatim>\<open>{"key": self.name, "data": data}\<close>.
\<close>

definition hex_digit :: "nat \<Rightarrow> char" where
  "hex_digit n = ''0123456789abcdef'' ! n"

definition json_escape :: "char \<Rightarrow> string" where
  "json_escape c =
     (if c = DQUOTE then [BSLASH, DQUOTE]
      else if c = BSLASH then [BSLASH, BSLASH]
      else if c = LF then [BSLASH, CHR ''n'']
      else if c = CR then [BSLASH, CHR ''r'']
      else if c = CHR 0x09 then [BSLASH, CHR ''t'']
      else if c = CHR 0x08 then [BSLASH, CHR ''b'']
      else if c = CHR 0x0C then [BSLASH, CHR ''f'']
      else if 32 \<le> (of_char c :: nat) \<and> (of_char c :: nat) \<le> 126 then [c]
      else [BSLASH, CHR ''u'', CHR ''0'', CHR ''0'',
            hex_digit ((of_char c :: nat) div 16), hex_digit ((of_char c :: nat) mod 16)])"

definition json_str :: "string \<Rightarrow> string" where
  "json_str s = DQUOTE # concat (map json_escape s) @ [DQUOTE]"

fun json_scalar :: "scalar \<Rightarrow> string" where
  "json_scalar PyNone = ''null''"
| "json_scalar (PyBool b) = (if b then ''true'' else ''false'')"
| "json_scalar (PyInt i) = str_int i"
| "json_scalar (PyStr s) = json_str s"

definition json_item :: "string \<times> scalar \<Rightarrow> string" where
  "json_item kv = json_str (fst kv) @ '': '' @ json_scalar (snd kv)"

definition json_dict :: "(string \<times> scalar) list \<Rightarrow> string" where
  "json_dict kvs = CHR ''{'' # join '', '' (map json_item kvs) @ ''}''"

definition json_dumps :: "string \<Rightarrow> (string \<times> scalar) list \<Rightarrow> string" where
  "json_dumps key data =
     CHR ''{'' # json_str ''key'' @ '': '' @ json_str key @ '', ''
       @ json_str ''data'' @ '': '' @ json_dict data @ ''}''"

subsection \<open>Reading a payload back\<close>





definition strip_prefix :: "string \<Rightarrow> string \<Rightarrow> string option" where
  "strip_prefix p s = (if take (length p) s = p then Some (drop (length p) s) else None)"











subsection \<open>Paths: \<^verbatim>\<open>os.path.splitext\<close> and \<^verbatim>\<open>os.path.dirname\<close> (POSIX)\<close>

text \<open>\<^verbatim>\<open>s.rfind(c)\<close>: the index of the last occurrence, or \<open>-1\<close>.\<close>

definition rfind :: "char \<Rightarrow> string \<Rightarrow> int" where
  "rfind c s =
     (if c \<in> set s then int (length s) - 1 - int (length (takeWhile (\<lambda>x. x \<noteq> c) (rev s)))
      else - 1)"

text \<open>
  The loop of \<^verbatim>\<open>genericpath._splitext\<close> that skips the leading dots of the file name: it
  runs over \<^verbatim>\<open>p[sepIndex+1:dotIndex]\<close> and answers at the first character that is not a
  dot.
\<close>

fun non_dot_before :: "string \<Rightarrow> bool" where
  "non_dot_before [] = False"
| "non_dot_before (c # cs) = (if c \<noteq> CHR ''.'' then True else non_dot_before cs)"

definition splitext :: "string \<Rightarrow> string \<times> string" where
  "splitext p =
     (let sepIndex = rfind CHR ''/'' p;
          dotIndex = rfind CHR ''.'' p
      in if dotIndex > sepIndex
            \<and> non_dot_before (take (nat (dotIndex - (sepIndex + 1))) (drop (nat (sepIndex + 1)) p))
         then (take (nat dotIndex) p, drop (nat dotIndex) p)
         else (p, []))"

definition rstrip :: "char \<Rightarrow> string \<Rightarrow> string" where
  "rstrip c s = rev (dropWhile (\<lambda>x. x = c) (rev s))"

definition dirname :: "string \<Rightarrow> string" where
  "dirname p =
     (let i = nat (rfind CHR ''/'' p + 1);
          head = take i p
      in if head \<noteq> [] \<and> head \<noteq> replicate (length head) CHR ''/''
         then rstrip CHR ''/'' head
         else head)"

subsection \<open>Exceptions, sensors and the world\<close>

datatype error =
    ValueError string
  | RuntimeError string
  | AttributeError string
  | FileNotFoundError string
  | OSError
  | ConnectionResetError
  | KeyError
  | ReaderError
  | HTTPNotFound
  | HTTPInternalServerError
  | NoSuchObject

text \<open>The three \<^verbatim>\<open>ValueError\<close>s and the \<^verbatim>\<open>RuntimeError\<close> the class raises, with their messages.\<close>

definition DuplicateNameError :: "string \<Rightarrow> error" where
  "DuplicateNameError nm =
     ValueError (''Sensor with name '' @ [SQUOTE] @ nm @ [SQUOTE] @ '' already exists.'')"

definition InvalidNameError :: error where
  "InvalidNameError =
     ValueError (''Sensor name cannot include the following chars: b'' @ [SQUOTE, BSLASH]
       @ ''n'' @ [SQUOTE] @ '', b'' @ [SQUOTE, BSLASH] @ ''r'' @ [SQUOTE])"

definition InvalidReadingError :: error where
  "InvalidReadingError = ValueError ''exec_function must return a non-empty dictionary.''"

definition NotConfiguredError :: error where
  "NotConfiguredError =
     RuntimeError ''Wiresense is not configured. Call configure() before creating instances.''"

text \<open>
  A reader is an opaque callable with effects of its own. It is modelled by the list of
  the values its coming invocations return: one invocation takes the head off, and an
  exhausted list is a reader that raises. A \<open>sensor\<close> is a \<^verbatim>\<open>Wiresense\<close> instance;
  \<open>csv_file_path\<close> is \<open>None\<close> while \<^verbatim>\<open>__init__\<close> has not reached the line that sets
  the attribute. Instances are referred to by their index in \<open>sensors\<close>, which never
  changes because the list is only ever appended to.
\<close>

record sensor =
  name :: string
  exec_function :: "reading list"
  base_file_path :: string
  csv_file_path :: "string option"

datatype level = INFO | WARNING | ERROR

text \<open>
  \<open>active_connections\<close> is the set in the order its iteration visits it. \<open>files\<close> is the
  storage (regular files only; directories are not tracked and can always be made),
  \<open>listening\<close> the endpoints bound so far, \<open>closing\<close> the channels on which a send
  raises, \<open>delivered\<close> what each channel has been sent, \<open>logs\<close> the log records.
\<close>

record world =
  sensors :: "sensor list"
  configured :: bool
  active_connections :: "nat list"
  files :: "string \<rightharpoonup> string"
  listening :: "(string \<times> int) list"
  closing :: "nat set"
  delivered :: "nat \<Rightarrow> string list"
  logs :: "(level \<times> string) list"

definition log_record :: "level \<Rightarrow> string \<Rightarrow> world \<Rightarrow> world" where
  "log_record lv msg w = w\<lparr>logs := logs w @ [(lv, msg)]\<rparr>"

subsection \<open>\<^verbatim>\<open>Wiresense.__init__\<close>\<close>

definition excluded_chars :: "char list" where
  "excluded_chars = [LF, CR]"

text \<open>
  \<^verbatim>\<open>os.makedirs(dir_name, exist_ok=True)\<close> raises \<^verbatim>\<open>FileNotFoundError\<close> for the empty
  path, which is what \<^verbatim>\<open>os.path.dirname\<close> gives for a base path without a directory.
  \<open>now\<close> is the value of \<^verbatim>\<open>int(time.time())\<close>. The result is the index of the new
  instance.
\<close>

definition register ::
  "string \<Rightarrow> reading list \<Rightarrow> string \<Rightarrow> int \<Rightarrow> world \<Rightarrow> (error + nat) \<times> world" where
  "register nm reader base now w =
     (if list_ex (\<lambda>s. name s = nm) (sensors w) then (Inl (DuplicateNameError nm), w)
      else if list_ex (\<lambda>ec. ec \<in> set nm) excluded_chars then (Inl InvalidNameError, w)
      else
        let self = \<lparr>name = nm, exec_function = reader, base_file_path = base,
                      csv_file_path = None\<rparr>;
            h = length (sensors w);
            w1 = w\<lparr>sensors := sensors w @ [self]\<rparr>
        in case reader of
             [] \<Rightarrow> (Inl ReaderError, w1)
           | data # rest \<Rightarrow>
               let self1 = self\<lparr>exec_function := rest\<rparr>;
                   w2 = w1\<lparr>sensors := (sensors w1)[h := self1]\<rparr>
               in case data of
                    NonDict \<Rightarrow> (Inl InvalidReadingError, w2)
                  | Dict kvs \<Rightarrow>
                      if kvs = [] then (Inl InvalidReadingError, w2)
                      else
                        let base_name = fst (splitext base);
                            ext = snd (splitext base);
                            dir_name = dirname base
                        in if dir_name = [] then (Inl (FileNotFoundError dir_name), w2)
                           else
                             let csv = base_name @ ''_'' @ str_int now @ ext;
                                 self2 = self1\<lparr>csv_file_path := Some csv\<rparr>;
                                 w3 = w2\<lparr>sensors := (sensors w2)[h := self2]\<rparr>;
                                 w4 = w3\<lparr>files := (files w3)
                                        (csv \<mapsto> writerow (PyStr ''timestamp'' # map PyStr (keys kvs)))\<rparr>
                             in (Inr h, w4))"

subsection \<open>The subscriber set and \<^verbatim>\<open>_broadcast\<close>\<close>

definition on_connect :: "nat \<Rightarrow> world \<Rightarrow> world" where
  "on_connect ws w =
     log_record INFO ''WebSocket Client connection established''
       (if ws \<in> set (active_connections w) then w
        else w\<lparr>active_connections := active_connections w @ [ws]\<rparr>)"

definition on_disconnect :: "nat \<Rightarrow> world \<Rightarrow> (error + unit) \<times> world" where
  "on_disconnect ws w =
     (if ws \<in> set (active_connections w)
      then (Inr (), log_record INFO ''WebSocket Client connection closed''
                      (w\<lparr>active_connections := removeAll ws (active_connections w)\<rparr>))
      else (Inl KeyError, w))"

definition send_str :: "nat \<Rightarrow> string \<Rightarrow> world \<Rightarrow> error + world" where
  "send_str ws msg w =
     (if ws \<in> closing w then Inl ConnectionResetError
      else Inr (w\<lparr>delivered := (delivered w)(ws := delivered w ws @ [msg])\<rparr>))"

text \<open>The \<^verbatim>\<open>for ws in active_connections\<close> loop: the first send that raises ends it.\<close>

fun send_all :: "nat list \<Rightarrow> string \<Rightarrow> world \<Rightarrow> (error + unit) \<times> world" where
  "send_all [] msg w = (Inr (), w)"
| "send_all (ws # rest) msg w =
     (case send_str ws msg w of
        Inl e \<Rightarrow> (Inl e, w)
      | Inr w' \<Rightarrow> send_all rest msg w')"

definition broadcast :: "string \<Rightarrow> world \<Rightarrow> (error + unit) \<times> world" where
  "broadcast msg w =
     (case send_all (active_connections w) msg w of
        (Inl e, w') \<Rightarrow> (Inl e, w')
      | (Inr u, w') \<Rightarrow> (Inr (), log_record INFO ''Broadcast message send!'' w'))"

text \<open>The world in which each channel of \<open>cs\<close> has been sent \<open>msg\<close> once more.\<close>

definition deliver_to :: "nat list \<Rightarrow> string \<Rightarrow> world \<Rightarrow> world" where
  "deliver_to cs msg w =
     w\<lparr>delivered := (\<lambda>c. if c \<in> set cs then delivered w c @ [msg] else delivered w c)\<rparr>"

subsection \<open>\<^verbatim>\<open>Wiresense.execute\<close>\<close>

text \<open>Opening the log in mode \<^verbatim>\<open>a\<close> creates the file when it is absent.\<close>

definition append_file :: "string \<Rightarrow> string \<Rightarrow> world \<Rightarrow> world" where
  "append_file path txt w =
     w\<lparr>files := (files w)(path \<mapsto> (case files w path of None \<Rightarrow> txt | Some old \<Rightarrow> old @ txt))\<rparr>"

definition execute :: "nat \<Rightarrow> int \<Rightarrow> world \<Rightarrow> (error + string) \<times> world" where
  "execute h now w =
     (if \<not> h < length (sensors w) then (Inl NoSuchObject, w)
      else if \<not> configured w then (Inl NotConfiguredError, w)
      else
        let self = sensors w ! h
        in case exec_function self of
             [] \<Rightarrow> (Inl ReaderError, w)
           | data # rest \<Rightarrow>
               let w1 = w\<lparr>sensors := (sensors w)[h := self\<lparr>exec_function := rest\<rparr>]\<rparr>
               in case data of
                    NonDict \<Rightarrow> (Inl InvalidReadingError, w1)
                  | Dict kvs \<Rightarrow>
                      if kvs = [] then (Inl InvalidReadingError, w1)
                      else
                        (case csv_file_path self of
                           None \<Rightarrow> (Inl (AttributeError ''csv_file_path''), w1)
                         | Some path \<Rightarrow>
                             let w2 = append_file path (writerow (PyInt now # values_of kvs)) w1;
                                 payload_str = json_dumps (name self) kvs
                             in case broadcast payload_str w2 of
                                  (Inl e, w3) \<Rightarrow> (Inl e, w3)
                                | (Inr u, w3) \<Rightarrow> (Inr payload_str, w3)))"


subsection \<open>\<^verbatim>\<open>Wiresense.config\<close> and \<^verbatim>\<open>_run_async_server\<close>\<close>

text \<open>
  \<open>start_ok\<close> says whether \<^verbatim>\<open>site.start()\<close> manages to bind; when it does not, the
  exception leaves \<^verbatim>\<open>_run_async_server\<close> before the flag is assigned. A missing port is
  \<^verbatim>\<open>None\<close>, for which the transport library takes 8080 while the log line prints
  \<^verbatim>\<open>None\<close>.
\<close>

definition run_async_server ::
  "string \<Rightarrow> int option \<Rightarrow> bool \<Rightarrow> world \<Rightarrow> (error + unit) \<times> world" where
  "run_async_server host port start_ok w =
     (let p = (case port of None \<Rightarrow> 8080 | Some q \<Rightarrow> q)
      in if \<not> start_ok then (Inl OSError, w)
         else (Inr (),
               log_record INFO
                 (''Server Running on: http://'' @ host @ '':''
                    @ (case port of None \<Rightarrow> ''None'' | Some q \<Rightarrow> str_int q))
                 (w\<lparr>listening := listening w @ [(host, p)], configured := True\<rparr>)))"

definition config :: "(string \<rightharpoonup> int) \<Rightarrow> bool \<Rightarrow> world \<Rightarrow> (error + unit) \<times> world" where
  "config options start_ok w =
     (if \<not> configured w
      then run_async_server ''0.0.0.0'' (options ''port'') start_ok
             (log_record INFO ''Starting Server...'' w)
      else (Inr (), log_record INFO ''Server already configured'' w))"

subsection \<open>\<^verbatim>\<open>_handle_http_request\<close>\<close>







subsection \<open>The registry invariant\<close>

text \<open>
  Names are unique, and a log path that has been set is not the empty string (it always
  holds the underscore); the constructor and the tick keep both.
\<close>

definition registry_ok :: "world \<Rightarrow> bool" where
  "registry_ok w =
     (distinct (map name (sensors w)) \<and> list_all (\<lambda>s. csv_file_path s \<noteq> Some []) (sensors w))"

subsection \<open>Worlds used as concrete instances\<close>

text \<open>
  A fresh process; the same process after
  \<^verbatim>\<open>Wiresense("temp", reader, "data/temp.csv")\<close> at time 1700000000, where the reader
  returns \<^verbatim>\<open>{"c": 21}\<close> and then \<^verbatim>\<open>{"c": 22}\<close>; and after a registration whose reader
  returned \<^verbatim>\<open>{}\<close>.
\<close>

definition initial_world :: world where
  "initial_world =
     \<lparr>sensors = [], configured = False, active_connections = [], files = Map.empty,
      listening = [], closing = {}, delivered = (\<lambda>c. []), logs = []\<rparr>"

definition temp_reader :: "reading list" where
  "temp_reader = [Dict [(''c'', PyInt 21)], Dict [(''c'', PyInt 22)]]"

definition temp_world :: world where
  "temp_world =
     \<lparr>sensors = [\<lparr>name = ''temp'', exec_function = [Dict [(''c'', PyInt 22)]],
                   base_file_path = ''data/temp.csv'',
                   csv_file_path = Some ''data/temp_1700000000.csv''\<rparr>],
      configured = False, active_connections = [],
      files = [''data/temp_1700000000.csv'' \<mapsto> ''timestamp,c'' @ [CR, LF]],
      listening = [], closing = {}, delivered = (\<lambda>c. []), logs = []\<rparr>"

definition failed_world :: world where
  "failed_world =
     \<lparr>sensors = [\<lparr>name = ''temp'', exec_function = [Dict [(''c'', PyInt 22)]],
                   base_file_path = ''data/temp.csv'', csv_file_path = None\<rparr>],
      configured = False, active_connections = [], files = Map.empty,
      listening = [], closing = {}, delivered = (\<lambda>c. []), logs = []\<rparr>"

text \<open>
  The \<open>temp\<close> process once configured on port 8080 with the channels 1 and 2 connected;
  the same with channel 1 broken (\<open>closing\<close> is the environment's: a channel breaks without
  any call of the module); and with channel 1 alone, broken.
\<close>

definition ready_world :: world where
  "ready_world =
     temp_world\<lparr>configured := True, active_connections := [1, 2],
                 listening := [(''0.0.0.0'', 8080)],
                 logs := [(INFO, ''Starting Server...''),
                          (INFO, ''Server Running on: http://0.0.0.0:8080''),
                          (INFO, ''WebSocket Client connection established''),
                          (INFO, ''WebSocket Client connection established'')]\<rparr>"

definition broken_world :: world where
  "broken_world = ready_world\<lparr>closing := {1}\<rparr>"


text \<open>The same once more with channel 2 visited before the broken channel 1.\<close>

definition late_world :: world where
  "late_world = ready_world\<lparr>active_connections := [2, 1], closing := {1}\<rparr>"

text \<open>
  A configured process with a sensor \<open>ab\<close> whose reader returned \<^verbatim>\<open>{"a": 1, "b": 2}\<close> at
  registration and returns the same reading with its keys in the other order next.
\<close>

definition swap_reader :: "reading list" where
  "swap_reader = [Dict [(''a'', PyInt 1), (''b'', PyInt 2)], Dict [(''b'', PyInt 2), (''a'', PyInt 1)]]"

definition swap_world :: world where
  "swap_world =
     \<lparr>sensors = [\<lparr>name = ''ab'', exec_function = [Dict [(''b'', PyInt 2), (''a'', PyInt 1)]],
                   base_file_path = ''data/ab.csv'',
                   csv_file_path = Some ''data/ab_1700000000.csv''\<rparr>],
      configured = True, active_connections = [],
      files = [''data/ab_1700000000.csv'' \<mapsto> ''timestamp,a,b'' @ [CR, LF]],
      listening = [(''0.0.0.0'', 8080)], closing = {}, delivered = (\<lambda>c. []),
      logs = [(INFO, ''Starting Server...''),
              (INFO, ''Server Running on: http://0.0.0.0:8080'')]\<rparr>"


section \<open>Facts about the text functions\<close>

lemma str_nat_digit: "n < 10 \<Longrightarrow> str_nat n = [''0123456789'' ! n]"
  by (subst str_nat.simps) simp

lemma str_nat_step:
  "\<not> n < 10 \<Longrightarrow> str_nat n = str_nat (n div 10) @ [''0123456789'' ! (n mod 10)]"
  by (subst str_nat.simps) simp








section \<open>Decoding what \<^verbatim>\<open>json.dumps\<close> wrote\<close>








lemma strip_prefix_other:
  "c \<noteq> d \<Longrightarrow> strip_prefix (c # p) (d # s) = None"
  by (simp add: strip_prefix_def)
















lemmas text_eval =
  splitext_def rfind_def Let_def dirname_def rstrip_def str_int_def str_nat_digit str_nat_step
  writerow_def csv_field_def csv_special_def json_escape_def json_str_def json_item_def
  json_dict_def json_dumps_def hex_digit_def replace_def keys_def values_of_def

section \<open>Registration\<close>

lemma register_taken:
  "nm \<in> name ` set (sensors w) \<Longrightarrow>
   register nm reader base now w = (Inl (DuplicateNameError nm), w)"
  by (auto simp: register_def list_ex_iff)

lemma register_bad_reading:
  assumes "nm \<notin> name ` set (sensors w)" and "LF \<notin> set nm" and "CR \<notin> set nm"
    and "\<not> nonempty_dict data"
  shows "register nm (data # rest) base now w =
    (Inl InvalidReadingError,
     w\<lparr>sensors := sensors w @
          [\<lparr>name = nm, exec_function = rest, base_file_path = base, csv_file_path = None\<rparr>]\<rparr>)"
  using assms
  by (cases data) (auto simp: register_def list_ex_iff excluded_chars_def Let_def)

lemma register_temp:
  "register ''temp'' temp_reader ''data/temp.csv'' 1700000000 initial_world = (Inr 0, temp_world)"
  by (simp add: register_def initial_world_def temp_world_def temp_reader_def
      excluded_chars_def text_eval)

lemma register_empty_reading:
  "register ''temp'' (Dict [] # [Dict [(''c'', PyInt 22)]]) ''data/temp.csv'' 1700000000
     initial_world = (Inl InvalidReadingError, failed_world)"
  by (simp add: register_def initial_world_def failed_world_def excluded_chars_def)

text \<open>
  Claim C6. When the registry already holds a sensor with the requested name, the
  constructor raises the duplicate-name \<^verbatim>\<open>ValueError\<close> before it touches anything: the
  world, and with it the registry and its size, is what it was.
\<close>

theorem register_duplicate_name:
  assumes "nm \<in> name ` set (sensors w)"
  shows "register nm reader base now w = (Inl (DuplicateNameError nm), w)
    \<and> length (sensors (snd (register nm reader base now w))) = length (sensors w)"
  using assms by (auto simp: register_def list_ex_iff)

theorem register_duplicate_name_witness:
  "register ''temp'' temp_reader ''data/temp.csv'' 1700000000 initial_world = (Inr 0, temp_world)
   \<and> ''temp'' \<in> name ` set (sensors temp_world)
   \<and> register ''temp'' [Dict [(''f'', PyInt 70)]] ''data/other.csv'' 1700000009 temp_world
       = (Inl (DuplicateNameError ''temp''), temp_world)
   \<and> length (sensors (snd (register ''temp'' [Dict [(''f'', PyInt 70)]] ''data/other.csv''
         1700000009 temp_world))) = 1"
proof -
  have taken: "''temp'' \<in> name ` set (sensors temp_world)"
    by (simp add: temp_world_def)
  have size: "length (sensors temp_world) = 1"
    by (simp add: temp_world_def)
  show ?thesis
    using register_duplicate_name [OF taken, of "[Dict [(''f'', PyInt 70)]]" "''data/other.csv''"
        1700000009] register_temp taken size
    by simp
qed

text \<open>
  Claim C3. A registration that gets as far as invoking the reader (the name is new and
  has no CR or LF) and whose reader then returns an empty dictionary, or something that
  is not a dictionary, raises the invalid-reading \<^verbatim>\<open>ValueError\<close>, and the storage is
  left as it was: no log file is created.
\<close>

theorem register_invalid_reading:
  assumes "nm \<notin> name ` set (sensors w)" and "LF \<notin> set nm" and "CR \<notin> set nm"
    and "\<not> nonempty_dict data"
  shows "fst (register nm (data # rest) base now w) = Inl InvalidReadingError
    \<and> files (snd (register nm (data # rest) base now w)) = files w"
  using assms by (simp add: register_bad_reading)

theorem register_invalid_reading_witness:
  "fst (register ''temp'' [Dict []] ''data/temp.csv'' 1700000000 initial_world)
     = Inl InvalidReadingError
   \<and> files (snd (register ''temp'' [Dict []] ''data/temp.csv'' 1700000000 initial_world))
     = Map.empty
   \<and> fst (register ''temp'' [NonDict] ''data/temp.csv'' 1700000000 initial_world)
     = Inl InvalidReadingError
   \<and> files (snd (register ''temp'' [NonDict] ''data/temp.csv'' 1700000000 initial_world))
     = Map.empty"
proof -
  have fresh: "''temp'' \<notin> name ` set (sensors initial_world)"
    by (simp add: initial_world_def)
  have lf: "LF \<notin> set ''temp''" and cr: "CR \<notin> set ''temp''"
    by simp_all
  have e: "\<not> nonempty_dict (Dict [])" and n: "\<not> nonempty_dict NonDict"
    by simp_all
  have store: "files initial_world = Map.empty"
    by (simp add: initial_world_def)
  show ?thesis
    using register_invalid_reading [OF fresh lf cr e, of "[]" "''data/temp.csv''" 1700000000]
      register_invalid_reading [OF fresh lf cr n, of "[]" "''data/temp.csv''" 1700000000] store
    by simp
qed

text \<open>
  Claim C4. The constructor appends the instance to the registry before it validates
  the first reading. So when that reading is empty or not a dictionary the call raises,
  the instance stays in the registry without its log path, and every later registration
  under the same name raises the duplicate-name error.
\<close>

theorem register_failed_keeps_name:
  assumes "nm \<notin> name ` set (sensors w)" and "LF \<notin> set nm" and "CR \<notin> set nm"
    and "\<not> nonempty_dict data"
  shows "fst (register nm (data # rest) base now w) = Inl InvalidReadingError
    \<and> sensors (snd (register nm (data # rest) base now w)) =
        sensors w @ [\<lparr>name = nm, exec_function = rest, base_file_path = base,
                       csv_file_path = None\<rparr>]
    \<and> (\<forall>reader' base' now'.
          register nm reader' base' now' (snd (register nm (data # rest) base now w)) =
            (Inl (DuplicateNameError nm), snd (register nm (data # rest) base now w)))"
proof -
  let ?w' = "snd (register nm (data # rest) base now w)"
  have r: "register nm (data # rest) base now w =
    (Inl InvalidReadingError,
     w\<lparr>sensors := sensors w @
          [\<lparr>name = nm, exec_function = rest, base_file_path = base, csv_file_path = None\<rparr>]\<rparr>)"
    using assms by (rule register_bad_reading)
  then have "nm \<in> name ` set (sensors ?w')"
    by simp
  then have "\<And>reader' base' now'.
      register nm reader' base' now' ?w' = (Inl (DuplicateNameError nm), ?w')"
    by (rule register_taken)
  with r show ?thesis
    by simp
qed

theorem register_failed_keeps_name_witness:
  "register ''temp'' (Dict [] # [Dict [(''c'', PyInt 22)]]) ''data/temp.csv'' 1700000000
     initial_world = (Inl InvalidReadingError, failed_world)
   \<and> map name (sensors failed_world) = [''temp'']
   \<and> register ''temp'' temp_reader ''data/temp.csv'' 1700000001 failed_world
       = (Inl (DuplicateNameError ''temp''), failed_world)"
proof -
  have fresh: "''temp'' \<notin> name ` set (sensors initial_world)"
    by (simp add: initial_world_def)
  have lf: "LF \<notin> set ''temp''" and cr: "CR \<notin> set ''temp''"
    by simp_all
  have e: "\<not> nonempty_dict (Dict [])"
    by simp
  have names: "map name (sensors failed_world) = [''temp'']"
    by (simp add: failed_world_def)
  show ?thesis
    using register_failed_keeps_name [OF fresh lf cr e, of "[Dict [(''c'', PyInt 22)]]"
        "''data/temp.csv''" 1700000000] register_empty_reading names
    by simp
qed



section \<open>The subscriber set\<close>

lemma ready_world_reached:
  "on_connect 2 (on_connect 1 (snd (config [''port'' \<mapsto> 8080] True temp_world))) = ready_world"
  by (simp add: on_connect_def config_def run_async_server_def log_record_def temp_world_def
      ready_world_def text_eval)

lemma swap_world_reached:
  "register ''ab'' swap_reader ''data/ab.csv'' 1700000000 initial_world = (Inr 0, w1) \<Longrightarrow>
   snd (config [''port'' \<mapsto> 8080] True w1) = swap_world"
  by (auto simp add: register_def excluded_chars_def config_def run_async_server_def log_record_def initial_world_def
      swap_world_def swap_reader_def text_eval)


lemma send_all_fails:
  assumes "distinct pre" and "set pre \<inter> closing w = {}" and "ws \<in> closing w"
  shows "send_all (pre @ ws # post) msg w = (Inl ConnectionResetError, deliver_to pre msg w)"
  using assms
proof (induction pre arbitrary: w)
  case Nil
  then show ?case by (simp add: deliver_to_def send_str_def)
next
  case (Cons c cs)
  let ?w = "w\<lparr>delivered := (delivered w)(c := delivered w c @ [msg])\<rparr>"
  from Cons.prems have "send_all ((c # cs) @ ws # post) msg w = send_all (cs @ ws # post) msg ?w"
    by (simp add: send_str_def)
  also have "\<dots> = (Inl ConnectionResetError, deliver_to cs msg ?w)"
    using Cons.prems by (intro Cons.IH) auto
  also have "deliver_to cs msg ?w = deliver_to (c # cs) msg w"
    using Cons.prems by (auto simp: deliver_to_def fun_eq_iff)
  finally show ?case .
qed


lemma broadcast_fails:
  assumes "active_connections w = pre @ ws # post" and "distinct (active_connections w)"
    and "set pre \<inter> closing w = {}" and "ws \<in> closing w"
  shows "broadcast msg w = (Inl ConnectionResetError, deliver_to pre msg w)"
  using assms by (simp add: broadcast_def send_all_fails)

lemma send_all_frame:
  "files (snd (send_all cs msg w)) = files w \<and> sensors (snd (send_all cs msg w)) = sensors w
   \<and> active_connections (snd (send_all cs msg w)) = active_connections w"
  by (induction cs arbitrary: w) (auto simp: send_str_def)

lemma broadcast_frame:
  "files (snd (broadcast msg w)) = files w \<and> sensors (snd (broadcast msg w)) = sensors w
   \<and> active_connections (snd (broadcast msg w)) = active_connections w"
  using send_all_frame [of "active_connections w" msg w]
  by (auto simp: broadcast_def log_record_def split: prod.splits sum.splits)

section \<open>The tick\<close>

lemmas tick_eval =
  execute_def append_file_def broadcast_def send_str_def log_record_def deliver_to_def

lemma execute_reads:
  assumes "h < length (sensors w)" and "configured w"
    and "exec_function (sensors w ! h) = Dict kvs # rest" and "kvs \<noteq> []"
    and "csv_file_path (sensors w ! h) = Some path"
  shows "execute h now w =
    (case broadcast (json_dumps (name (sensors w ! h)) kvs)
            (append_file path (writerow (PyInt now # values_of kvs))
               (w\<lparr>sensors := (sensors w)[h := (sensors w ! h)\<lparr>exec_function := rest\<rparr>]\<rparr>)) of
       (Inl e, w3) \<Rightarrow> (Inl e, w3)
     | (Inr u, w3) \<Rightarrow> (Inr (json_dumps (name (sensors w ! h)) kvs), w3))"
  using assms by (simp add: execute_def Let_def)





text \<open>
  Claim C2, as the code has it. \<^verbatim>\<open>_broadcast\<close> has no handler around the send. When the
  first channel whose send raises is \<open>ws\<close>, with \<open>pre\<close> visited before it and \<open>post\<close>
  after it, the exception leaves \<^verbatim>\<open>_broadcast\<close> (and \<^verbatim>\<open>execute\<close>, which has already
  written its row): the channels of \<open>pre\<close> have received the payload, \<open>ws\<close> and the
  channels of \<open>post\<close> have received nothing, and the subscriber set is unchanged, \<open>ws\<close>
  included.
\<close>

theorem broadcast_stops_at_first_failure:
  assumes "distinct (active_connections w)" and "active_connections w = pre @ ws # post"
    and "set pre \<inter> closing w = {}" and "ws \<in> closing w"
  shows "broadcast msg w = (Inl ConnectionResetError, deliver_to pre msg w)
    \<and> active_connections (deliver_to pre msg w) = active_connections w
    \<and> (\<forall>c \<in> set pre. delivered (deliver_to pre msg w) c = delivered w c @ [msg])
    \<and> (\<forall>c \<in> set (ws # post). delivered (deliver_to pre msg w) c = delivered w c)
    \<and> (h < length (sensors w) \<and> configured w
          \<and> exec_function (sensors w ! h) = Dict kvs # rest \<and> kvs \<noteq> []
          \<and> csv_file_path (sensors w ! h) = Some path
        \<longrightarrow> execute h now w =
             (Inl ConnectionResetError,
              deliver_to pre (json_dumps (name (sensors w ! h)) kvs)
                (append_file path (writerow (PyInt now # values_of kvs))
                   (w\<lparr>sensors := (sensors w)[h := (sensors w ! h)\<lparr>exec_function := rest\<rparr>]\<rparr>))))"
proof -
  have b: "broadcast msg w = (Inl ConnectionResetError, deliver_to pre msg w)" for msg
    using assms(2,1,3,4) by (rule broadcast_fails)
  have d: "set pre \<inter> set (ws # post) = {}"
    using assms(1,2) by auto
  have e: "execute h now w =
             (Inl ConnectionResetError,
              deliver_to pre (json_dumps (name (sensors w ! h)) kvs)
                (append_file path (writerow (PyInt now # values_of kvs))
                   (w\<lparr>sensors := (sensors w)[h := (sensors w ! h)\<lparr>exec_function := rest\<rparr>]\<rparr>)))"
    if "h < length (sensors w)" "configured w" "exec_function (sensors w ! h) = Dict kvs # rest"
      "kvs \<noteq> []" "csv_file_path (sensors w ! h) = Some path"
  proof -
    let ?w2 = "append_file path (writerow (PyInt now # values_of kvs))
       (w\<lparr>sensors := (sensors w)[h := (sensors w ! h)\<lparr>exec_function := rest\<rparr>]\<rparr>)"
    have "active_connections ?w2 = pre @ ws # post" and "closing ?w2 = closing w"
      using assms(2) by (simp_all add: append_file_def)
    then have "broadcast (json_dumps (name (sensors w ! h)) kvs) ?w2 =
        (Inl ConnectionResetError, deliver_to pre (json_dumps (name (sensors w ! h)) kvs) ?w2)"
      using assms broadcast_fails [of ?w2 pre ws post] by simp
    then show ?thesis
      using that by (simp add: execute_reads)
  qed
  from b d e show ?thesis
    by (auto simp: deliver_to_def)
qed

theorem broadcast_stops_at_first_failure_witness:
  "fst (execute 0 1700000005 late_world) = Inl ConnectionResetError
   \<and> delivered (snd (execute 0 1700000005 late_world)) 2 = [json_dumps ''temp'' [(''c'', PyInt 22)]]
   \<and> delivered (snd (execute 0 1700000005 late_world)) 1 = []
   \<and> active_connections (snd (execute 0 1700000005 late_world)) = [2, 1]"
proof -
  have a: "distinct (active_connections late_world)"
    and b: "active_connections late_world = [2] @ 1 # []"
    and c: "set [2] \<inter> closing late_world = {}"
    and d: "1 \<in> closing late_world"
    by (simp_all add: late_world_def ready_world_def temp_world_def)
  have e: "0 < length (sensors late_world) \<and> configured late_world
      \<and> exec_function (sensors late_world ! 0) = Dict [(''c'', PyInt 22)] # [] \<and> [(''c'', PyInt 22)] \<noteq> []
      \<and> csv_file_path (sensors late_world ! 0) = Some ''data/temp_1700000000.csv''"
    by (simp add: late_world_def ready_world_def temp_world_def)
  have n: "name (sensors late_world ! 0) = ''temp''" and s: "delivered late_world = (\<lambda>c. [])"
    and l: "active_connections late_world = [2, 1]"
    by (simp_all add: late_world_def ready_world_def temp_world_def)
  show ?thesis
    using broadcast_stops_at_first_failure [OF a b c d, where h = 0
        and kvs = "[(''c'', PyInt 22)]" and rest = "[]" and path = "''data/temp_1700000000.csv''"
        and now = 1700000005 and msg = "[]"] e n s l
    by (simp add: deliver_to_def append_file_def)
qed

text \<open>
  Against claim C2 as stated: with the channels 1 and 2 connected, 1 broken and visited
  first, the tick raises, channel 2 receives nothing and channel 1 is still subscribed.
\<close>

theorem execute_broken_first_counterexample:
  "active_connections broken_world = [1, 2] \<and> closing broken_world = {1}
   \<and> fst (execute 0 1700000005 broken_world) = Inl ConnectionResetError
   \<and> delivered (snd (execute 0 1700000005 broken_world)) 2 = []
   \<and> 1 \<in> set (active_connections (snd (execute 0 1700000005 broken_world)))"
  by (simp add: tick_eval broken_world_def ready_world_def temp_world_def text_eval)






text \<open>
  Claim C9. While the configured flag is false, \<^verbatim>\<open>execute\<close> raises the not-configured
  \<^verbatim>\<open>RuntimeError\<close> at once: the world is returned as it was, so the reader has not been
  invoked, no row has been written and nothing has been sent.
\<close>

theorem execute_not_configured:
  assumes "h < length (sensors w)" and "\<not> configured w"
  shows "execute h now w = (Inl NotConfiguredError, w)"
  using assms by (simp add: execute_def)

theorem execute_not_configured_witness:
  "0 < length (sensors temp_world) \<and> \<not> configured temp_world
   \<and> execute 0 1700000005 temp_world = (Inl NotConfiguredError, temp_world)"
proof -
  have h: "0 < length (sensors temp_world)" and c: "\<not> configured temp_world"
    by (simp_all add: temp_world_def)
  show ?thesis
    using execute_not_configured [OF h c, of 1700000005] h c by simp
qed

section \<open>Configuration\<close>

text \<open>
  Claim C8. From an unconfigured world, a call of \<^verbatim>\<open>config\<close> whose bind succeeds adds
  exactly one listening endpoint and leaves the flag set; when the bind fails the flag
  stays false and nothing is listening that was not before, so the flag is only ever set
  after the bind. Every call made once the flag is set returns normally and changes
  nothing but the log, whatever its options: two calls leave one endpoint.
\<close>

theorem config_idempotent:
  assumes "\<not> configured w"
  shows "fst (config options True w) = Inr ()
    \<and> configured (snd (config options True w))
    \<and> listening (snd (config options True w)) =
        listening w @ [(''0.0.0.0'', case options ''port'' of None \<Rightarrow> 8080 | Some q \<Rightarrow> q)]
    \<and> (\<forall>options' ok'.
          config options' ok' (snd (config options True w)) =
            (Inr (), log_record INFO ''Server already configured'' (snd (config options True w))))
    \<and> fst (config options False w) = Inl OSError
    \<and> \<not> configured (snd (config options False w))
    \<and> listening (snd (config options False w)) = listening w"
  using assms
  by (simp add: config_def run_async_server_def log_record_def Let_def)

theorem config_idempotent_witness:
  "\<not> configured initial_world
   \<and> fst (config [''port'' \<mapsto> 8080] True initial_world) = Inr ()
   \<and> listening (snd (config [''port'' \<mapsto> 8080] True initial_world)) = [(''0.0.0.0'', 8080)]
   \<and> fst (config [''port'' \<mapsto> 8080] True (snd (config [''port'' \<mapsto> 8080] True initial_world)))
       = Inr ()
   \<and> listening (snd (config [''port'' \<mapsto> 8080] True
         (snd (config [''port'' \<mapsto> 8080] True initial_world)))) = [(''0.0.0.0'', 8080)]"
proof -
  have u: "\<not> configured initial_world"
    by (simp add: initial_world_def)
  have l: "listening initial_world = []"
    by (simp add: initial_world_def)
  show ?thesis
    using config_idempotent [OF u, of "[''port'' \<mapsto> 8080]"] u l
    by (simp add: log_record_def)
qed

section \<open>Log retrieval\<close>

lemma register_sensors:
  "\<exists>ss. sensors (snd (register nm reader base now w)) = sensors w @ ss
     \<and> (ss = [] \<or> (\<exists>s. ss = [s] \<and> name s = nm \<and> nm \<notin> name ` set (sensors w)
            \<and> csv_file_path s \<noteq> Some []))"
  by (auto simp: register_def Let_def list_ex_iff split: list.splits reading.splits)

lemma register_keeps_registry:
  assumes "registry_ok w"
  shows "registry_ok (snd (register nm reader base now w))"
proof -
  obtain ss where ss: "sensors (snd (register nm reader base now w)) = sensors w @ ss"
    and new: "ss = [] \<or> (\<exists>s. ss = [s] \<and> name s = nm \<and> nm \<notin> name ` set (sensors w)
            \<and> csv_file_path s \<noteq> Some [])"
    using register_sensors by blast
  from new assms show ?thesis
    unfolding registry_ok_def ss by (auto simp: image_iff)
qed

lemma registry_ok_initial: "registry_ok initial_world"
  by (simp add: registry_ok_def initial_world_def)

lemma execute_sensors:
  "sensors (snd (execute h now w)) = sensors w
   \<or> (\<exists>rest. sensors (snd (execute h now w)) =
         (sensors w)[h := (sensors w ! h)\<lparr>exec_function := rest\<rparr>])"
proof -
  have "sensors (snd (case broadcast msg w2 of (Inl e, w3) \<Rightarrow> (Inl e, w3)
                       | (Inr u, w3) \<Rightarrow> (Inr p, w3))) = sensors w2" for msg w2 and p :: string
    using broadcast_frame [of msg w2] by (auto split: prod.splits sum.splits)
  then show ?thesis
    by (auto simp: execute_def Let_def append_file_def
        split: list.splits reading.splits option.splits)
qed

lemma map_update_same: "(map f ys)[h := f (ys ! h)] = map f ys"
  by (cases "h < length ys") (simp_all add: list_update_same_conv list_update_beyond)

lemma execute_keeps_registry:
  assumes "registry_ok w"
  shows "registry_ok (snd (execute h now w))"
proof -
  let ?w' = "snd (execute h now w)"
  have ok_iff: "registry_ok v \<longleftrightarrow>
      distinct (map name (sensors v)) \<and> Some [] \<notin> set (map csv_file_path (sensors v))" for v
    by (force simp: registry_ok_def list_all_iff)
  have upd: "map name ((sensors w)[h := (sensors w ! h)\<lparr>exec_function := rest\<rparr>]) = map name (sensors w)"
    "map csv_file_path ((sensors w)[h := (sensors w ! h)\<lparr>exec_function := rest\<rparr>])
      = map csv_file_path (sensors w)" for rest
    by (simp_all add: map_update map_update_same)
  from execute_sensors [of h now w]
  have "map name (sensors ?w') = map name (sensors w)
      \<and> map csv_file_path (sensors ?w') = map csv_file_path (sensors w)"
  proof (elim disjE exE)
    assume "sensors ?w' = sensors w"
    then show ?thesis by simp
  next
    fix rest
    assume "sensors ?w' = (sensors w)[h := (sensors w ! h)\<lparr>exec_function := rest\<rparr>]"
    then show ?thesis by (simp only: upd)
  qed
  with assms show ?thesis
    by (simp add: ok_iff)
qed






end
